theory Spec2Isabelle
  imports Complex_Main
begin

section \<open>Values shared by the whole module\<close>

text \<open>
  The module under verification is \<^verbatim>\<open>src/api/pdfProcessor.js\<close>, class \<^verbatim>\<open>PDFProcessor\<close>.
  JavaScript numbers that measure page geometry are modelled as exact reals: the only
  arithmetic the module does on them is \<^verbatim>\<open>width - 2 * marginPx\<close> followed by a comparison
  with zero, and the sign of a floating-point difference is the sign of the exact one.
  A thrown \<^verbatim>\<open>Error\<close> is a value carrying its message.
\<close>

datatype error = Error (message: string)

datatype rectangle =
  Rectangle (rect_x: real) (rect_y: real) (rect_width: real) (rect_height: real)

section \<open>CROP\_PRESETS and getPlatformPreset\<close>

text \<open>
  The \<^verbatim>\<open>cropBox\<close> object of the flipkart preset has six members: the two measured corners
  and the derived \<^verbatim>\<open>x, y, width, height\<close>.
\<close>

record cropBoxSpec =
  topLeft :: "real \<times> real"
  bottomRight :: "real \<times> real"
  box_x :: real
  box_y :: real
  box_width :: real
  box_height :: real

text \<open>A preset object; a member the object literal does not have is \<open>None\<close> (undefined).\<close>

record preset =
  pageSize :: "(real \<times> real) option"
  cropBox :: "cropBoxSpec option"
  margin :: "real option"

definition flipkartPreset :: preset where
  "flipkartPreset =
     \<lparr> pageSize = Some (595, 842),
       cropBox = Some \<lparr> topLeft = (272, 36), bottomRight = (618, 589),
                        box_x = 272, box_y = 253, box_width = 346, box_height = 553 \<rparr>,
       margin = None \<rparr>"

definition marginPreset :: "real \<Rightarrow> preset" where
  "marginPreset m = \<lparr> pageSize = None, cropBox = None, margin = Some m \<rparr>"

definition customPreset :: preset where
  "customPreset = marginPreset 50"

text \<open>The own properties of the object literal, in source order.\<close>

definition CROP_PRESETS :: "(string \<times> preset) list" where
  "CROP_PRESETS =
     [ (''flipkart'', flipkartPreset),
       (''meesho'', marginPreset 40),
       (''amazon'', marginPreset 45),
       (''citymall'', marginPreset 35),
       (''custom'', customPreset) ]"

text \<open>
  \<^verbatim>\<open>CROP_PRESETS\<close> is an object literal, so its prototype is \<^verbatim>\<open>Object.prototype\<close> and the
  bracket lookup \<^verbatim>\<open>CROP_PRESETS[platform]\<close> walks the prototype chain: a key that is not
  an own property but names a member of \<^verbatim>\<open>Object.prototype\<close> yields that member (a
  function, or the prototype object itself for \<^verbatim>\<open>__proto__\<close>), which is truthy.
\<close>

definition objectPrototypeKeys :: "string list" where
  "objectPrototypeKeys =
     [ ''constructor'', ''__defineGetter__'', ''__defineSetter__'', ''hasOwnProperty'',
       ''__lookupGetter__'', ''__lookupSetter__'', ''isPrototypeOf'',
       ''propertyIsEnumerable'', ''toString'', ''valueOf'', ''__proto__'',
       ''toLocaleString'' ]"

datatype propertyValue =
    PresetObject preset
  | ObjectPrototypeMember string

text \<open>\<^verbatim>\<open>this.CROP_PRESETS[platform]\<close>; \<open>None\<close> is \<^verbatim>\<open>undefined\<close>.\<close>

definition getProperty :: "string \<Rightarrow> propertyValue option" where
  "getProperty key =
     (case map_of CROP_PRESETS key of
        Some p \<Rightarrow> Some (PresetObject p)
      | None \<Rightarrow> (if key \<in> set objectPrototypeKeys
                 then Some (ObjectPrototypeMember key) else None))"

text \<open>
  \<^verbatim>\<open>return this.CROP_PRESETS[platform] || this.CROP_PRESETS.custom;\<close>
  Every value the lookup can yield is an object or a function, hence truthy, so the
  right operand is taken exactly when the lookup is undefined.
\<close>

definition getPlatformPreset :: "string \<Rightarrow> propertyValue" where
  "getPlatformPreset platform =
     (case getProperty platform of
        Some v \<Rightarrow> v
      | None \<Rightarrow> PresetObject customPreset)"

text \<open>\<^verbatim>\<open>preset.cropBox\<close> on whatever \<^verbatim>\<open>getPlatformPreset\<close> returned.\<close>

fun cropBoxOf :: "propertyValue \<Rightarrow> cropBoxSpec option" where
  "cropBoxOf (PresetObject p) = cropBox p"
| "cropBoxOf (ObjectPrototypeMember k) = None"

section \<open>Pages and documents\<close>

datatype font = Helvetica | HelveticaBold

record drawing =
  drawnText :: string
  at_x :: real
  at_y :: real
  fontSize :: real
  drawnFont :: font
  color :: "real \<times> real \<times> real"

text \<open>
  A page as the PDF library presents it: the \<^verbatim>\<open>MediaBox\<close> entry, the optional
  \<^verbatim>\<open>CropBox\<close> entry, the content it came with and the text drawn on it by this module.
  A document is the list of its pages.
\<close>

record page =
  MediaBox :: rectangle
  CropBox :: "rectangle option"
  content :: string
  drawn :: "drawing list"

type_synonym document = "page list"

text \<open>
  The two page methods the crop engine calls, as the PDF library (pdf-lib) defines them:
  \<^verbatim>\<open>page.getSize()\<close> returns the width and height of \<^verbatim>\<open>getMediaBox()\<close>, and
  \<^verbatim>\<open>page.setCropBox(x, y, width, height)\<close> writes the crop box entry and nothing else.
\<close>

definition getSize :: "page \<Rightarrow> real \<times> real" where
  "getSize p = (rect_width (MediaBox p), rect_height (MediaBox p))"

definition setCropBox :: "real \<Rightarrow> real \<Rightarrow> real \<Rightarrow> real \<Rightarrow> page \<Rightarrow> page" where
  "setCropBox bx by bw bh p = p\<lparr> CropBox := Some (Rectangle bx by bw bh) \<rparr>"

text \<open>
  \<^verbatim>\<open>target.copyPages(source, indices)\<close>: the pages of \<open>source\<close> at the given indices, as
  new page objects with the same entries. Every call site passes indices below the
  page count.
\<close>

definition copyPages :: "document \<Rightarrow> nat list \<Rightarrow> page list" where
  "copyPages source indices = map (\<lambda>i. source ! i) indices"

definition getPageIndices :: "document \<Rightarrow> nat list" where
  "getPageIndices doc = [0..<length doc]"

definition addPage :: "page \<Rightarrow> document \<Rightarrow> document" where
  "addPage p doc = doc @ [p]"

section \<open>CropEngine\<close>

text \<open>
  \<^verbatim>\<open>cropFlipkart(pdfDoc, cropBox)\<close>: a new document; for each index \<open>i\<close> below the page
  count, page \<open>i\<close> is copied, its crop box set to the literal rectangle of the source
  line \<^verbatim>\<open>copiedPage.setCropBox(165, 460, 265, 360)\<close>, and appended. The parameter
  \<^verbatim>\<open>cropBox\<close> is not read. The \<^verbatim>\<open>catch\<close> inside the loop rethrows what it caught; the
  copy of a page below the page count does not throw.
\<close>

definition cropFlipkartStep :: "document \<Rightarrow> nat \<Rightarrow> document \<Rightarrow> document" where
  "cropFlipkartStep pdfDoc i newPdf =
     (case copyPages pdfDoc [i] of
        copiedPage # _ \<Rightarrow> addPage (setCropBox 165 460 265 360 copiedPage) newPdf
      | [] \<Rightarrow> newPdf)"

definition cropFlipkart :: "document \<Rightarrow> cropBoxSpec \<Rightarrow> document" where
  "cropFlipkart pdfDoc cropBoxArg =
     fold (cropFlipkartStep pdfDoc) [0..<length pdfDoc] []"

text \<open>
  \<^verbatim>\<open>applyMarginCrop(pdfDoc, marginPx)\<close>. The margin is the result of \<^verbatim>\<open>parseInt\<close>: an
  integer, or NaN (\<open>None\<close>), for which both comparisons \<^verbatim>\<open>> 0\<close> are false.
\<close>

definition marginCropPage :: "int option \<Rightarrow> page \<Rightarrow> page" where
  "marginCropPage marginPx p =
     (case marginPx of
        None \<Rightarrow> p
      | Some m \<Rightarrow>
          (let (width, height) = getSize p;
               newWidth = width - 2 * of_int m;
               newHeight = height - 2 * of_int m
           in if newWidth > 0 \<and> newHeight > 0
              then setCropBox (of_int m) (of_int m) newWidth newHeight p
              else p))"

fun applyMarginCrop :: "document \<Rightarrow> int option \<Rightarrow> document" where
  "applyMarginCrop [] marginPx = []"
| "applyMarginCrop (p # pages) marginPx =
     marginCropPage marginPx p # applyMarginCrop pages marginPx"

section \<open>SkuExtractor\<close>

subsection \<open>Characters\<close>

text \<open>
  A JavaScript string is a sequence of UTF-16 code units. Page text and the sort keys
  derived from it are modelled as lists of code units (integers from 0 to 65535), so
  that every character the text layer of a PDF can deliver is covered; \<open>codeUnits\<close>
  embeds a string of 8-bit characters. File names, error messages, setting values and
  the custom text are only passed on, or compared with ASCII literals, and stay strings
  of 8-bit characters.
\<close>

type_synonym codeUnit = int

type_synonym jsString = "codeUnit list"

definition codeUnits :: "string \<Rightarrow> jsString" where
  "codeUnits s = map of_char s"

text \<open>
  The characters that \<^verbatim>\<open>\s\<close> matches and \<^verbatim>\<open>String.prototype.trim\<close> removes: the
  white space and line terminators of the language. Written with ranges:
  U+0009 to U+000D, U+0020, U+00A0, U+1680, U+2000 to U+200A, U+2028, U+2029, U+202F,
  U+205F, U+3000 and U+FEFF.
\<close>

definition isWhiteSpace :: "codeUnit \<Rightarrow> bool" where
  "isWhiteSpace n =
     ((9 \<le> n \<and> n \<le> 13) \<or> n = 32 \<or> n = 160 \<or> n = 5760 \<or> (8192 \<le> n \<and> n \<le> 8202)
      \<or> n = 8232 \<or> n = 8233 \<or> n = 8239 \<or> n = 8287 \<or> n = 12288 \<or> n = 65279)"

definition isDigit :: "codeUnit \<Rightarrow> bool" where
  "isDigit n = (48 \<le> n \<and> n \<le> 57)"

definition isLowerAscii :: "codeUnit \<Rightarrow> bool" where
  "isLowerAscii n = (97 \<le> n \<and> n \<le> 122)"

definition isUpperAscii :: "codeUnit \<Rightarrow> bool" where
  "isUpperAscii n = (65 \<le> n \<and> n \<le> 90)"

text \<open>
  The upper-case form of a code unit as far as this module can observe it: \<^verbatim>\<open>a-z\<close> go to
  \<^verbatim>\<open>A-Z\<close>. (Under the \<^verbatim>\<open>i\<close> flag without the \<^verbatim>\<open>u\<close> flag a character outside ASCII is
  never identified with an ASCII one, and the sort keys contain no other letters.)
\<close>

definition upperChar :: "codeUnit \<Rightarrow> codeUnit" where
  "upperChar n = (if isLowerAscii n then n - 32 else n)"

text \<open>
  The same characters one by one, as the language standard lists them: TAB, LF, VT, FF,
  CR, SPACE, NO-BREAK SPACE, OGHAM SPACE MARK, EN QUAD to HAIR SPACE, LINE SEPARATOR,
  PARAGRAPH SEPARATOR, NARROW NO-BREAK SPACE, MEDIUM MATHEMATICAL SPACE, IDEOGRAPHIC
  SPACE and ZERO WIDTH NO-BREAK SPACE.
\<close>

definition whiteSpaceCodeUnits :: "codeUnit list" where
  "whiteSpaceCodeUnits =
     [ 9, 10, 11, 12, 13, 32, 160, 5760,
       8192, 8193, 8194, 8195, 8196, 8197, 8198, 8199, 8200, 8201, 8202,
       8232, 8233, 8239, 8287, 12288, 65279 ]"

text \<open>\<^verbatim>\<open>str.trim()\<close>: white space is removed from both ends.\<close>

definition trim :: "jsString \<Rightarrow> jsString" where
  "trim s = rev (dropWhile isWhiteSpace (rev (dropWhile isWhiteSpace s)))"

subsection \<open>The regular expressions\<close>

text \<open>
  The three patterns are sequences of single-character atoms, each taken once or under
  a quantifier (\<^verbatim>\<open>+\<close>, \<^verbatim>\<open>*\<close>, \<^verbatim>\<open>+?\<close>, \<^verbatim>\<open>*?\<close>), with one capturing group around one
  quantified atom. All three carry the \<^verbatim>\<open>i\<close> flag: a literal matches a character with
  the same upper-case form, and the classes \<^verbatim>\<open>[A-Z]\<close> and \<^verbatim>\<open>[a-zA-Z0-9_\s-]\<close> accept both
  cases of each letter. Pattern 3 also carries \<^verbatim>\<open>s\<close>, so its dot accepts every character.
\<close>

datatype atom =
    Digit
  | Space
  | SkuChar
  | Letter
  | Literal char
  | AnyChar

fun atomMatches :: "atom \<Rightarrow> codeUnit \<Rightarrow> bool" where
  "atomMatches Digit c = isDigit c"
| "atomMatches Space c = isWhiteSpace c"
| "atomMatches SkuChar c =
     (isLowerAscii c \<or> isUpperAscii c \<or> isDigit c \<or> c = of_char (CHR ''_'')
      \<or> isWhiteSpace c \<or> c = of_char (CHR ''-''))"
| "atomMatches Letter c = (isLowerAscii c \<or> isUpperAscii c)"
| "atomMatches (Literal l) c = (upperChar c = upperChar (of_char l))"
| "atomMatches AnyChar c = True"

datatype quantifier = Once | Plus | Star | LazyPlus | LazyStar

text \<open>\<open>Item g a q\<close>: atom \<open>a\<close> under quantifier \<open>q\<close>; \<open>g\<close> tells whether it is the capturing group.\<close>

datatype item = Item bool atom quantifier

definition capture :: "bool \<Rightarrow> jsString \<Rightarrow> codeUnit \<Rightarrow> jsString" where
  "capture g cap c = (if g then cap @ [c] else cap)"

text \<open>
  Backtracking match of the items against a prefix of the text, alternatives tried in
  the order the language prescribes: a greedy quantifier first takes one more character,
  a lazy one first tries the rest of the pattern. The result is the text of the
  capturing group on the first alternative that succeeds.
\<close>

fun matchItems :: "item list \<Rightarrow> jsString \<Rightarrow> jsString \<Rightarrow> jsString option" where
  "matchItems [] s cap = Some cap"
| "matchItems (Item g a Once # rest) [] cap = None"
| "matchItems (Item g a Once # rest) (c # cs) cap =
     (if atomMatches a c then matchItems rest cs (capture g cap c) else None)"
| "matchItems (Item g a Plus # rest) [] cap = None"
| "matchItems (Item g a Plus # rest) (c # cs) cap =
     (if atomMatches a c then matchItems (Item g a Star # rest) cs (capture g cap c)
      else None)"
| "matchItems (Item g a Star # rest) [] cap = matchItems rest [] cap"
| "matchItems (Item g a Star # rest) (c # cs) cap =
     (case (if atomMatches a c
            then matchItems (Item g a Star # rest) cs (capture g cap c) else None) of
        Some r \<Rightarrow> Some r
      | None \<Rightarrow> matchItems rest (c # cs) cap)"
| "matchItems (Item g a LazyPlus # rest) [] cap = None"
| "matchItems (Item g a LazyPlus # rest) (c # cs) cap =
     (if atomMatches a c then matchItems (Item g a LazyStar # rest) cs (capture g cap c)
      else None)"
| "matchItems (Item g a LazyStar # rest) [] cap = matchItems rest [] cap"
| "matchItems (Item g a LazyStar # rest) (c # cs) cap =
     (case matchItems rest (c # cs) cap of
        Some r \<Rightarrow> Some r
      | None \<Rightarrow>
          (if atomMatches a c
           then matchItems (Item g a LazyStar # rest) cs (capture g cap c) else None))"

text \<open>
  \<^verbatim>\<open>text.match(re)\<close> without the \<^verbatim>\<open>g\<close> flag: the match at the leftmost start position
  that has one; the result is group 1 of that match, \<open>None\<close> is \<^verbatim>\<open>null\<close>.
\<close>

fun regexMatch :: "item list \<Rightarrow> jsString \<Rightarrow> jsString option" where
  "regexMatch items [] = matchItems items [] []"
| "regexMatch items (c # cs) =
     (case matchItems items (c # cs) [] of
        Some r \<Rightarrow> Some r
      | None \<Rightarrow> regexMatch items cs)"

definition literal :: "string \<Rightarrow> item list" where
  "literal s = map (\<lambda>c. Item False (Literal c) Once) s"

text \<open>\<^verbatim>\<open>/\d+\s+([a-zA-Z0-9_\s-]+?)\s*\|\s*[A-Z]/i\<close>\<close>

definition pattern1 :: "item list" where
  "pattern1 =
     [ Item False Digit Plus, Item False Space Plus, Item True SkuChar LazyPlus,
       Item False Space Star, Item False (Literal (CHR ''|'')) Once,
       Item False Space Star, Item False Letter Once ]"

text \<open>\<^verbatim>\<open>/QTY\s+\d+\s+([a-zA-Z0-9_\s-]+?)\s*\|/i\<close>\<close>

definition pattern2 :: "item list" where
  "pattern2 =
     literal ''QTY'' @
     [ Item False Space Plus, Item False Digit Plus, Item False Space Plus,
       Item True SkuChar LazyPlus, Item False Space Star,
       Item False (Literal (CHR ''|'')) Once ]"

text \<open>\<^verbatim>\<open>/SKU ID.*?QTY\s+\d+\s+([a-zA-Z0-9_\s-]+?)\s*\|/is\<close>\<close>

definition pattern3 :: "item list" where
  "pattern3 =
     literal ''SKU ID'' @ [ Item False AnyChar LazyStar ] @
     literal ''QTY'' @
     [ Item False Space Plus, Item False Digit Plus, Item False Space Plus,
       Item True SkuChar LazyPlus, Item False Space Star,
       Item False (Literal (CHR ''|'')) Once ]"

text \<open>
  The part of \<^verbatim>\<open>extractSKUFromPage\<close> after \<^verbatim>\<open>const text = data.text\<close>: the three
  matches with their \<^verbatim>\<open>if (!skuMatch)\<close> guards, then
  \<^verbatim>\<open>if (skuMatch && skuMatch[1]) return skuMatch[1].trim()\<close>, else \<^verbatim>\<open>null\<close>.
\<close>

definition extractSKUFromText :: "jsString \<Rightarrow> jsString option" where
  "extractSKUFromText text =
     (let skuMatch = regexMatch pattern1 text;
          skuMatch = (if skuMatch = None then regexMatch pattern2 text else skuMatch);
          skuMatch = (if skuMatch = None then regexMatch pattern3 text else skuMatch)
      in case skuMatch of
           None \<Rightarrow> None
         | Some group1 \<Rightarrow> (if group1 = [] then None else Some (trim group1)))"

section \<open>Collaborators\<close>

text \<open>
  What the module calls but does not define, taken as parameters: \<^verbatim>\<open>fs.readFile\<close>
  (its argument is \<open>None\<close> when the caller passes \<^verbatim>\<open>undefined\<close>), \<^verbatim>\<open>PDFDocument.load\<close>,
  \<^verbatim>\<open>pdfDoc.save\<close>, \<^verbatim>\<open>pdfParse\<close> with the page renderer of \<^verbatim>\<open>extractSKUFromPage\<close> (the
  \<^verbatim>\<open>data.text\<close> it yields for a 1-based page number), \<^verbatim>\<open>String.prototype.localeCompare\<close>,
  the formatted current time and \<^verbatim>\<open>font.widthOfTextAtSize\<close>. Each call that can throw
  returns \<open>Inl\<close> of the error. The type \<open>'b\<close> is that of file contents.
\<close>

record 'b collaborators =
  readFile :: "string option \<Rightarrow> error + 'b"
  load :: "'b \<Rightarrow> error + document"
  save :: "document \<Rightarrow> error + 'b"
  pdfParse :: "'b \<Rightarrow> nat \<Rightarrow> error + jsString"
  localeCompare :: "jsString \<Rightarrow> jsString \<Rightarrow> int"
  dateTimeText :: string
  widthOfTextAtSize :: "font \<Rightarrow> string \<Rightarrow> real \<Rightarrow> error + real"

text \<open>
  \<^verbatim>\<open>extractSKUFromPage(pdfBytes, pageNumber)\<close>: the whole body is inside
  \<^verbatim>\<open>try { ... } catch (error) { return null; }\<close>.
\<close>

definition extractSKUFromPage :: "'b collaborators \<Rightarrow> 'b \<Rightarrow> nat \<Rightarrow> jsString option" where
  "extractSKUFromPage env pdfBytes pageNumber =
     (case pdfParse env pdfBytes pageNumber of
        Inl e \<Rightarrow> None
      | Inr text \<Rightarrow> extractSKUFromText text)"

section \<open>Settings\<close>

text \<open>
  The value of \<^verbatim>\<open>settings.margin\<close> is whatever the caller put there. Numbers are
  restricted to integers whose decimal form has no exponent.
\<close>

datatype jsValue =
    JSUndefined
  | JSNull
  | JSBoolean bool
  | JSNumber int
  | JSString string

fun truthy :: "jsValue \<Rightarrow> bool" where
  "truthy JSUndefined = False"
| "truthy JSNull = False"
| "truthy (JSBoolean b) = b"
| "truthy (JSNumber n) = (n \<noteq> 0)"
| "truthy (JSString s) = (s \<noteq> [])"

definition digitValue :: "char \<Rightarrow> int" where
  "digitValue c =
     (let n = (of_char c :: int)
      in if isDigit n then n - 48 else if isLowerAscii n then n - 87 else n - 55)"

definition isRadixDigit :: "int \<Rightarrow> char \<Rightarrow> bool" where
  "isRadixDigit radix c =
     ((isDigit (of_char c) \<or> isLowerAscii (of_char c) \<or> isUpperAscii (of_char c))
      \<and> digitValue c < radix)"

text \<open>
  \<^verbatim>\<open>parseInt(string)\<close> with no radix: leading white space is skipped, a sign is read, a
  \<^verbatim>\<open>0x\<close> prefix selects radix 16, and the longest run of digits is converted; with no digit
  the result is NaN (\<open>None\<close>).
\<close>

definition parseIntString :: "string \<Rightarrow> int option" where
  "parseIntString input =
     (let s = dropWhile (\<lambda>c. isWhiteSpace (of_char c)) input;
          negative = (case s of [] \<Rightarrow> False | c # _ \<Rightarrow> c = CHR ''-'');
          s = (case s of [] \<Rightarrow> []
               | c # cs \<Rightarrow> if c = CHR ''+'' \<or> c = CHR ''-'' then cs else c # cs);
          hex = (case s of
                   a # b # _ \<Rightarrow> a = CHR ''0'' \<and> (b = CHR ''x'' \<or> b = CHR ''X'')
                 | _ \<Rightarrow> False);
          s = (if hex then drop 2 s else s);
          radix = (if hex then 16 else 10);
          z = takeWhile (isRadixDigit radix) s;
          mathInt = foldl (\<lambda>acc c. acc * radix + digitValue c) 0 z
      in if z = [] then None else Some (if negative then - mathInt else mathInt))"

fun parseInt :: "jsValue \<Rightarrow> int option" where
  "parseInt (JSString s) = parseIntString s"
| "parseInt (JSNumber n) = Some n"
| "parseInt v = None"

record settings =
  mergePdf :: bool
  platform :: string
  margin :: jsValue
  sortSku :: bool
  addDateTime :: bool
  addText :: bool
  customText :: string

section \<open>PipelineOrchestrator\<close>

subsection \<open>Step 1: load or merge\<close>

definition loadFile :: "'b collaborators \<Rightarrow> string option \<Rightarrow> error + document" where
  "loadFile env filePath =
     (case readFile env filePath of
        Inl e \<Rightarrow> Inl e
      | Inr pdfBytes \<Rightarrow> load env pdfBytes)"

text \<open>
  The body of \<^verbatim>\<open>for (const filePath of filePaths)\<close>, with the document built so far as
  the last argument: read, load, copy all pages, add each.
\<close>

fun mergeFiles :: "'b collaborators \<Rightarrow> string list \<Rightarrow> document \<Rightarrow> error + document" where
  "mergeFiles env [] pdfDoc = Inr pdfDoc"
| "mergeFiles env (filePath # filePaths) pdfDoc =
     (case loadFile env (Some filePath) of
        Inl e \<Rightarrow> Inl e
      | Inr srcDoc \<Rightarrow>
          (let pages = copyPages srcDoc (getPageIndices srcDoc)
           in mergeFiles env filePaths (fold addPage pages pdfDoc)))"

text \<open>\<^verbatim>\<open>filePaths[0]\<close>: \<^verbatim>\<open>undefined\<close> on the empty array.\<close>

definition firstPath :: "string list \<Rightarrow> string option" where
  "firstPath filePaths = (case filePaths of [] \<Rightarrow> None | filePath # _ \<Rightarrow> Some filePath)"

definition loadStage :: "'b collaborators \<Rightarrow> string list \<Rightarrow> settings \<Rightarrow> error + document" where
  "loadStage env filePaths st =
     (if mergePdf st \<and> length filePaths > 1
      then mergeFiles env filePaths []
      else loadFile env (firstPath filePaths))"

subsection \<open>Step 2: crop\<close>

definition cropStage :: "settings \<Rightarrow> document \<Rightarrow> document" where
  "cropStage st pdfDoc =
     (let preset = getPlatformPreset (platform st)
      in case (if platform st = ''flipkart'' then cropBoxOf preset else None) of
           Some presetCropBox \<Rightarrow> cropFlipkart pdfDoc presetCropBox
         | None \<Rightarrow>
             (if platform st \<noteq> ''flipkart'' \<and> truthy (margin st)
                 \<and> margin st \<noteq> JSString ''0''
              then applyMarginCrop pdfDoc (parseInt (margin st))
              else pdfDoc))"

subsection \<open>Step 3: sort by SKU\<close>

text \<open>\<^verbatim>\<open>String(i)\<close> for a non-negative integer, and \<^verbatim>\<open>padStart\<close>.\<close>

definition digitChar :: "nat \<Rightarrow> char" where
  "digitChar d = ''0123456789'' ! d"

fun natToString :: "nat \<Rightarrow> string" where
  "natToString n =
     (if n < 10 then [digitChar n]
      else natToString (n div 10) @ [digitChar (n mod 10)])"

declare natToString.simps [simp del]

definition padStart :: "nat \<Rightarrow> char \<Rightarrow> string \<Rightarrow> string" where
  "padStart targetLength padChar s = replicate (targetLength - length s) padChar @ s"

record pageDatum =
  index :: nat
  sku :: jsString

text \<open>
  \<^verbatim>\<open>sku || `zzz_no_sku_${String(i).padStart(4, '0')}`\<close>: the fallback is taken when the
  extractor returned \<^verbatim>\<open>null\<close> or the empty string.
\<close>

definition skuOrFallback :: "jsString option \<Rightarrow> nat \<Rightarrow> jsString" where
  "skuOrFallback extracted i =
     (case extracted of
        None \<Rightarrow> codeUnits (''zzz_no_sku_'' @ padStart 4 (CHR ''0'') (natToString i))
      | Some s \<Rightarrow>
          (if s = []
           then codeUnits (''zzz_no_sku_'' @ padStart 4 (CHR ''0'') (natToString i))
           else s))"

definition collectPageData :: "(nat \<Rightarrow> jsString option) \<Rightarrow> nat \<Rightarrow> pageDatum list" where
  "collectPageData extract pageCount =
     fold (\<lambda>i pageData. pageData @ [\<lparr> index = i, sku = skuOrFallback (extract (i + 1)) i \<rparr>])
       [0..<pageCount] []"

text \<open>
  \<^verbatim>\<open>toUpperCase\<close> on sort keys. A key is the fallback literal or a trimmed capture of
  \<^verbatim>\<open>[a-zA-Z0-9_\s-]+?\<close> (lemma \<open>extractSKUFromText_chars\<close> below), and among those
  characters only \<^verbatim>\<open>a-z\<close> change.
\<close>

definition toUpperCase :: "jsString \<Rightarrow> jsString" where
  "toUpperCase s = map upperChar s"

definition compareSku :: "'b collaborators \<Rightarrow> pageDatum \<Rightarrow> pageDatum \<Rightarrow> int" where
  "compareSku env a b =
     (let skuA = toUpperCase (sku a); skuB = toUpperCase (sku b)
      in localeCompare env skuA skuB)"

text \<open>
  \<^verbatim>\<open>Array.prototype.sort(compareFn)\<close> is a stable sort; with a comparator that is a
  consistent ordering its result is that of stable insertion.
\<close>

fun insertBy :: "('a \<Rightarrow> 'a \<Rightarrow> int) \<Rightarrow> 'a \<Rightarrow> 'a list \<Rightarrow> 'a list" where
  "insertBy cmp v [] = [v]"
| "insertBy cmp v (w # ws) =
     (if cmp v w \<le> 0 then v # w # ws else w # insertBy cmp v ws)"

definition sortArray :: "('a \<Rightarrow> 'a \<Rightarrow> int) \<Rightarrow> 'a list \<Rightarrow> 'a list" where
  "sortArray cmp vs = foldr (insertBy cmp) vs []"

definition copySortedStep :: "document \<Rightarrow> pageDatum \<Rightarrow> document \<Rightarrow> document" where
  "copySortedStep pdfDoc d sortedPdf =
     (case copyPages pdfDoc [index d] of
        copiedPage # _ \<Rightarrow> addPage copiedPage sortedPdf
      | [] \<Rightarrow> sortedPdf)"

definition sortedPageData :: "'b collaborators \<Rightarrow> 'b \<Rightarrow> nat \<Rightarrow> pageDatum list" where
  "sortedPageData env currentPdfBytes pageCount =
     sortArray (compareSku env)
       (collectPageData (extractSKUFromPage env currentPdfBytes) pageCount)"

definition sortStage :: "'b collaborators \<Rightarrow> settings \<Rightarrow> document \<Rightarrow> error + document" where
  "sortStage env st pdfDoc =
     (if sortSku st
      then (case save env pdfDoc of
              Inl e \<Rightarrow> Inl e
            | Inr currentPdfBytes \<Rightarrow>
                Inr (fold (copySortedStep pdfDoc)
                       (sortedPageData env currentPdfBytes (length pdfDoc)) []))
      else Inr pdfDoc)"

subsection \<open>Steps 4 and 5: stamps\<close>

definition drawText :: "drawing \<Rightarrow> page \<Rightarrow> page" where
  "drawText d p = p\<lparr> drawn := drawn p @ [d] \<rparr>"

fun addDateTime :: "'b collaborators \<Rightarrow> document \<Rightarrow> error + document" where
  "addDateTime env [] = Inr []"
| "addDateTime env (p # pages) =
     (let (width, height) = getSize p
      in case widthOfTextAtSize env Helvetica (dateTimeText env) 8 of
           Inl e \<Rightarrow> Inl e
         | Inr textWidth \<Rightarrow>
             (case addDateTime env pages of
                Inl e \<Rightarrow> Inl e
              | Inr rest \<Rightarrow>
                  Inr (drawText \<lparr> drawnText = dateTimeText env, at_x = width - textWidth - 10,
                                  at_y = 10, fontSize = 8, drawnFont = Helvetica,
                                  color = (0.3, 0.3, 0.3) \<rparr> p # rest)))"

fun stampCustomText :: "'b collaborators \<Rightarrow> string \<Rightarrow> document \<Rightarrow> error + document" where
  "stampCustomText env text [] = Inr []"
| "stampCustomText env text (p # pages) =
     (let (width, height) = getSize p
      in case widthOfTextAtSize env HelveticaBold text 12 of
           Inl e \<Rightarrow> Inl e
         | Inr textWidth \<Rightarrow>
             (case stampCustomText env text pages of
                Inl e \<Rightarrow> Inl e
              | Inr rest \<Rightarrow>
                  Inr (drawText \<lparr> drawnText = text, at_x = (width - textWidth) / 2,
                                  at_y = height - 25, fontSize = 12,
                                  drawnFont = HelveticaBold, color = (0, 0, 0) \<rparr> p # rest)))"

definition addCustomText :: "'b collaborators \<Rightarrow> document \<Rightarrow> string \<Rightarrow> error + document" where
  "addCustomText env pdfDoc text =
     (if text = [] \<or> trim (codeUnits text) = [] then Inr pdfDoc
      else stampCustomText env text pdfDoc)"

definition annotateStage :: "'b collaborators \<Rightarrow> settings \<Rightarrow> document \<Rightarrow> error + document" where
  "annotateStage env st pdfDoc =
     (case (if settings.addDateTime st then addDateTime env pdfDoc else Inr pdfDoc) of
        Inl e \<Rightarrow> Inl e
      | Inr stamped \<Rightarrow>
          (if addText st \<and> customText st \<noteq> []
           then addCustomText env stamped (customText st)
           else Inr stamped))"

subsection \<open>processPDF\<close>

text \<open>The document at the end of step 5, or the error thrown on the way.\<close>

definition processDocument ::
  "'b collaborators \<Rightarrow> string list \<Rightarrow> settings \<Rightarrow> error + document" where
  "processDocument env filePaths st =
     (case loadStage env filePaths st of
        Inl e \<Rightarrow> Inl e
      | Inr loaded \<Rightarrow>
          (case sortStage env st (cropStage st loaded) of
             Inl e \<Rightarrow> Inl e
           | Inr sortedPdf \<Rightarrow> annotateStage env st sortedPdf))"

text \<open>The body of the \<^verbatim>\<open>try\<close> block: the five steps, then \<^verbatim>\<open>pdfDoc.save()\<close>.\<close>

definition tryBody :: "'b collaborators \<Rightarrow> string list \<Rightarrow> settings \<Rightarrow> error + 'b" where
  "tryBody env filePaths st =
     (case processDocument env filePaths st of
        Inl e \<Rightarrow> Inl e
      | Inr pdfDoc \<Rightarrow> save env pdfDoc)"

text \<open>
  \<^verbatim>\<open>catch (error) { throw new Error('PDF processing failed: ' + error.message); }\<close>
\<close>

definition processPDF :: "'b collaborators \<Rightarrow> string list \<Rightarrow> settings \<Rightarrow> error + 'b" where
  "processPDF env filePaths st =
     (case tryBody env filePaths st of
        Inl e \<Rightarrow> Inl (Error (''PDF processing failed: '' @ message e))
      | Inr pdfBytes \<Rightarrow> Inr pdfBytes)"

section \<open>Concrete inputs\<close>

text \<open>An A4 label page with no crop box yet.\<close>

definition labelPage :: page where
  "labelPage =
     \<lparr> MediaBox = Rectangle 0 0 595 842, CropBox = None, content = ''label'', drawn = [] \<rparr>"

text \<open>The four numbers \<^verbatim>\<open>x, y, width, height\<close> of a preset crop box, as a rectangle.\<close>

definition presetRectangle :: "cropBoxSpec \<Rightarrow> rectangle" where
  "presetRectangle b = Rectangle (box_x b) (box_y b) (box_width b) (box_height b)"

text \<open>
  A page of an order label whose text yields the SKU \<^verbatim>\<open>zzz_z\<close>, and a page with no SKU.
\<close>

definition skuPage :: page where
  "skuPage =
     \<lparr> MediaBox = Rectangle 0 0 595 842, CropBox = None, content = ''1 zzz_z | MFTEXO'',
       drawn = [] \<rparr>"

definition plainPage :: page where
  "plainPage =
     \<lparr> MediaBox = Rectangle 0 0 595 842, CropBox = None, content = ''Tax Invoice'',
       drawn = [] \<rparr>"

text \<open>Comparison of two strings by their code units, as a sign.\<close>

fun codeUnitCompare :: "jsString \<Rightarrow> jsString \<Rightarrow> int" where
  "codeUnitCompare [] [] = 0"
| "codeUnitCompare [] (b # bs) = - 1"
| "codeUnitCompare (a # as) [] = 1"
| "codeUnitCompare (a # as) (b # bs) =
     (if a < b then - 1
      else if b < a then 1
      else codeUnitCompare as bs)"

text \<open>
  A concrete set of collaborators. A file holds a document and serialising is the
  identity; two files exist; the text of a page is its content; strings are compared by
  code unit (on the keys used below, which first differ at two capital letters,
  every collation of the Latin alphabet gives the same sign); measuring a text fails on
  a character the standard font encoding does not have.
\<close>

definition demoReadFile :: "string option \<Rightarrow> error + document" where
  "demoReadFile filePath =
     (case filePath of
        None \<Rightarrow> Inl (Error ''The path argument must be of type string. Received undefined'')
      | Some name \<Rightarrow>
          (if name = ''a.pdf'' then Inr [skuPage, plainPage]
           else if name = ''b.pdf'' then Inr [labelPage]
           else Inl (Error ''ENOENT: no such file or directory'')))"

definition demoPdfParse :: "document \<Rightarrow> nat \<Rightarrow> error + jsString" where
  "demoPdfParse pdfBytes pageNumber =
     (if 1 \<le> pageNumber \<and> pageNumber \<le> length pdfBytes
      then Inr (codeUnits (content (pdfBytes ! (pageNumber - 1)))) else Inr [])"

definition demoWidth :: "font \<Rightarrow> string \<Rightarrow> real \<Rightarrow> error + real" where
  "demoWidth f text pt =
     (if list_all (\<lambda>c. 32 \<le> (of_char c :: nat) \<and> (of_char c :: nat) < 127) text
      then Inr (of_nat (length text) * pt / 2)
      else Inl (Error ''WinAnsi cannot encode this character''))"

definition demoEnv :: "document collaborators" where
  "demoEnv =
     \<lparr> readFile = demoReadFile, load = Inr, save = Inr, pdfParse = demoPdfParse,
       localeCompare = codeUnitCompare, dateTimeText = ''02/11/2026, 09:41:00 pm'',
       widthOfTextAtSize = demoWidth \<rparr>"


definition demoSettings :: settings where
  "demoSettings =
     \<lparr> mergePdf = False, platform = ''flipkart'', margin = JSString ''40'', sortSku = False,
       addDateTime = False, addText = False, customText = [] \<rparr>"

section \<open>Auxiliary predicate on patterns\<close>

text \<open>A pattern whose capturing group sits on an atom that must consume a character.\<close>

fun mustCapture :: "item list \<Rightarrow> bool" where
  "mustCapture [] = False"
| "mustCapture (Item g a q # rest) =
     ((g \<and> (q = Once \<or> q = Plus \<or> q = LazyPlus)) \<or> mustCapture rest)"

text \<open>A pattern whose capturing group, if any, sits on the atom \<open>a\<close>.\<close>

fun capturesOnly :: "atom \<Rightarrow> item list \<Rightarrow> bool" where
  "capturesOnly a [] = True"
| "capturesOnly a (Item g b q # rest) = ((if g then b = a else True) \<and> capturesOnly a rest)"

section \<open>The crop engine: proofs\<close>

lemma fold_snoc_map: "fold (\<lambda>i acc. acc @ [f i]) js acc = acc @ map f js"
  by (induction js arbitrary: acc) simp_all

lemma cropFlipkartStep_snoc:
  "cropFlipkartStep pdfDoc i newPdf = newPdf @ [setCropBox 165 460 265 360 (pdfDoc ! i)]"
  by (simp add: cropFlipkartStep_def copyPages_def addPage_def)

lemma cropFlipkart_map:
  "cropFlipkart pdfDoc cropBoxArg = map (setCropBox 165 460 265 360) pdfDoc"
proof -
  have "cropFlipkart pdfDoc cropBoxArg
          = map (\<lambda>i. setCropBox 165 460 265 360 (pdfDoc ! i)) [0..<length pdfDoc]"
    unfolding cropFlipkart_def
    using fold_snoc_map [of "\<lambda>i. setCropBox 165 460 265 360 (pdfDoc ! i)"
                            "[0..<length pdfDoc]" "[]"]
    by (simp add: cropFlipkartStep_snoc [abs_def])
  also have "\<dots> = map (setCropBox 165 460 265 360) (map (\<lambda>i. pdfDoc ! i) [0..<length pdfDoc])"
    by simp
  also have "\<dots> = map (setCropBox 165 460 265 360) pdfDoc"
    by (simp only: map_nth)
  finally show ?thesis .
qed

lemma CropBox_cropFlipkart:
  "map CropBox (cropFlipkart pdfDoc cropBoxArg)
     = replicate (length pdfDoc) (Some (Rectangle 165 460 265 360))"
  by (simp add: cropFlipkart_map setCropBox_def comp_def map_replicate_const)

lemma applyMarginCrop_map:
  "applyMarginCrop pdfDoc marginPx = map (marginCropPage marginPx) pdfDoc"
  by (induction pdfDoc) simp_all

lemma marginCropPage_NaN: "marginCropPage None p = p"
  by (simp add: marginCropPage_def)

lemma marginCropPage_Some:
  "marginCropPage (Some m) p =
     (if rect_width (MediaBox p) - 2 * of_int m > 0
         \<and> rect_height (MediaBox p) - 2 * of_int m > 0
      then p\<lparr> CropBox := Some (Rectangle (of_int m) (of_int m)
                 (rect_width (MediaBox p) - 2 * of_int m)
                 (rect_height (MediaBox p) - 2 * of_int m)) \<rparr>
      else p)"
  by (simp add: marginCropPage_def getSize_def setCropBox_def Let_def)

lemma marginCropPage_idem:
  "marginCropPage marginPx (marginCropPage marginPx p) = marginCropPage marginPx p"
proof (cases marginPx)
  case None
  then show ?thesis by (simp add: marginCropPage_NaN)
next
  case (Some m)
  then show ?thesis by (simp add: marginCropPage_Some)
qed

lemma getPlatformPreset_flipkart:
  "getPlatformPreset ''flipkart'' = PresetObject flipkartPreset"
  by (simp add: getPlatformPreset_def getProperty_def CROP_PRESETS_def)

lemma cropStage_flipkart:
  "cropStage (st\<lparr> platform := ''flipkart'' \<rparr>) pdfDoc
     = map (setCropBox 165 460 265 360) pdfDoc"
  by (simp add: cropStage_def getPlatformPreset_flipkart flipkartPreset_def cropFlipkart_map)

lemma length_cropStage: "length (cropStage st pdfDoc) = length pdfDoc"
  by (simp add: cropStage_def Let_def cropFlipkart_map applyMarginCrop_map
           split: option.splits)

text \<open>
  Claim C3. For a page whose size is \<open>w\<close> by \<open>h\<close>, the margin crop with an integer margin
  \<open>m\<close> sets the crop box to \<open>(m, m, w - 2m, h - 2m)\<close> when both \<open>w - 2m\<close> and \<open>h - 2m\<close>
  are positive, and leaves the page as it is otherwise; the operation is a total
  function on documents, so nothing is raised.
\<close>

theorem applyMarginCrop_geometry:
  "applyMarginCrop pdfDoc (Some m) =
     map (\<lambda>p. let w = rect_width (MediaBox p); h = rect_height (MediaBox p)
              in if w - 2 * of_int m > 0 \<and> h - 2 * of_int m > 0
                 then p\<lparr> CropBox := Some (Rectangle (of_int m) (of_int m)
                                           (w - 2 * of_int m) (h - 2 * of_int m)) \<rparr>
                 else p) pdfDoc"
  by (simp add: applyMarginCrop_map marginCropPage_Some Let_def)

text \<open>
  Claim C7. Neither crop mode changes the number of pages: the fixed-box crop, the
  margin crop and the crop step of \<^verbatim>\<open>processPDF\<close> as a whole all return a document with
  as many pages as they were given, whatever the settings.
\<close>

theorem crop_preserves_page_count:
  "length (cropFlipkart pdfDoc presetCropBox) = length pdfDoc
   \<and> length (applyMarginCrop pdfDoc marginPx) = length pdfDoc
   \<and> length (cropStage st pdfDoc) = length pdfDoc"
  by (simp add: cropFlipkart_map applyMarginCrop_map length_cropStage)

text \<open>
  Claim C9 as stated (a second margin crop with the same positive margin gives a
  strictly narrower crop box) fails: on an A4 page with margin 40 the first and the
  second application both leave the crop box \<open>(40, 40, 515, 762)\<close>.
\<close>

theorem applyMarginCrop_twice_counterexample:
  "map CropBox (applyMarginCrop [labelPage] (Some 40)) = [Some (Rectangle 40 40 515 762)]
   \<and> map CropBox (applyMarginCrop (applyMarginCrop [labelPage] (Some 40)) (Some 40))
       = [Some (Rectangle 40 40 515 762)]
   \<and> applyMarginCrop (applyMarginCrop [labelPage] (Some 40)) (Some 40)
       = applyMarginCrop [labelPage] (Some 40)"
  by (simp add: marginCropPage_Some labelPage_def)

text \<open>
  Claim C9, amended. The margin crop computes its rectangle from the page size, which
  setting the crop box does not change; applying it a second time with the same margin
  gives the same document as applying it once, for every margin.
\<close>

theorem applyMarginCrop_idempotent:
  "applyMarginCrop (applyMarginCrop pdfDoc marginPx) marginPx
     = applyMarginCrop pdfDoc marginPx"
  by (simp add: applyMarginCrop_map marginCropPage_idem)

text \<open>
  Claim C10. \<^verbatim>\<open>cropFlipkart\<close> gives every copied page the crop box
  \<open>(165, 460, 265, 360)\<close> whatever crop box argument it receives, also when called from
  the crop step with the flipkart preset; the crop box stored in that preset is
  \<open>(272, 253, 346, 553)\<close>, a different rectangle.
\<close>

theorem cropFlipkart_ignores_preset_box:
  "map CropBox (cropFlipkart pdfDoc cropBoxArg)
     = replicate (length pdfDoc) (Some (Rectangle 165 460 265 360))
   \<and> cropFlipkart pdfDoc cropBoxArg = cropFlipkart pdfDoc otherArg
   \<and> map CropBox (cropStage (st\<lparr> platform := ''flipkart'' \<rparr>) pdfDoc)
       = replicate (length pdfDoc) (Some (Rectangle 165 460 265 360))
   \<and> map_option presetRectangle (cropBoxOf (getPlatformPreset ''flipkart''))
       = Some (Rectangle 272 253 346 553)
   \<and> Rectangle 165 460 265 360 \<noteq> Rectangle 272 253 346 553"
  by (simp add: CropBox_cropFlipkart cropFlipkart_map cropStage_flipkart setCropBox_def
        comp_def map_replicate_const getPlatformPreset_flipkart flipkartPreset_def
        presetRectangle_def)

section \<open>The preset registry: proofs\<close>

lemma getPlatformPreset_named:
  "getPlatformPreset ''flipkart'' = PresetObject flipkartPreset
   \<and> getPlatformPreset ''meesho'' = PresetObject (marginPreset 40)
   \<and> getPlatformPreset ''amazon'' = PresetObject (marginPreset 45)
   \<and> getPlatformPreset ''citymall'' = PresetObject (marginPreset 35)
   \<and> getPlatformPreset ''custom'' = PresetObject (marginPreset 50)"
  by (simp add: getPlatformPreset_def getProperty_def CROP_PRESETS_def customPreset_def)

lemma getPlatformPreset_fallback:
  "map_of CROP_PRESETS key = None \<Longrightarrow> key \<notin> set objectPrototypeKeys \<Longrightarrow>
   getPlatformPreset key = PresetObject (marginPreset 50)"
  by (simp add: getPlatformPreset_def getProperty_def customPreset_def)

lemma getPlatformPreset_unknown_platform:
  "getPlatformPreset ''unknown-platform'' = PresetObject (marginPreset 50)"
  by (simp add: getPlatformPreset_def getProperty_def CROP_PRESETS_def customPreset_def
        objectPrototypeKeys_def)

text \<open>
  Claim C6 says that every string other than the five preset names yields the custom
  preset. The lookup is a plain bracket access on an object literal, so for the string
  \<^verbatim>\<open>constructor\<close> it finds the member inherited from \<^verbatim>\<open>Object.prototype\<close>, which is
  truthy, and \<^verbatim>\<open>getPlatformPreset\<close> returns that member and not the custom preset.
\<close>

theorem getPlatformPreset_inherited_key:
  "getPlatformPreset ''constructor'' = ObjectPrototypeMember ''constructor''
   \<and> getPlatformPreset ''constructor'' \<noteq> PresetObject customPreset"
  by (simp add: getPlatformPreset_def getProperty_def CROP_PRESETS_def
        objectPrototypeKeys_def)

section \<open>Load and merge: proofs\<close>

lemma fold_addPage: "fold addPage pages pdfDoc = pdfDoc @ pages"
  by (induction pages arbitrary: pdfDoc) (simp_all add: addPage_def)

lemma copyPages_all: "copyPages srcDoc (getPageIndices srcDoc) = srcDoc"
  by (simp add: copyPages_def getPageIndices_def map_nth)

lemma mergeFiles_concat:
  "map (\<lambda>fp. loadFile env (Some fp)) filePaths = map Inr docs \<Longrightarrow>
   mergeFiles env filePaths pdfDoc = Inr (pdfDoc @ concat docs)"
proof (induction filePaths arbitrary: docs pdfDoc)
  case Nil
  then show ?case by simp
next
  case (Cons fp fps)
  then obtain d ds where docs: "docs = d # ds" by (cases docs) auto
  with Cons.prems have hd: "loadFile env (Some fp) = Inr d"
    and tl: "map (\<lambda>fp. loadFile env (Some fp)) fps = map Inr ds" by auto
  show ?case
    using Cons.IH [OF tl] hd docs by (simp add: copyPages_all fold_addPage)
qed

text \<open>
  Claim C1. When \<^verbatim>\<open>mergePdf\<close> is set and there is more than one input file, and every
  file reads and loads (file \<open>i\<close> as document \<open>docs ! i\<close>), the document after step 1 is
  the concatenation of the input documents in input order, each with its own page order,
  and its page count is the sum of theirs. When \<^verbatim>\<open>mergePdf\<close> is not set, the document
  after step 1 is the first file's document alone.
\<close>

theorem loadStage_pages:
  "(mergePdf st \<and> length filePaths > 1
      \<and> map (\<lambda>fp. loadFile env (Some fp)) filePaths = map Inr docs
    \<longrightarrow> loadStage env filePaths st = Inr (concat docs)
        \<and> length (concat docs) = sum_list (map length docs))
   \<and> (\<not> mergePdf st \<and> filePaths = filePath # others
        \<and> loadFile env (Some filePath) = Inr firstDoc
      \<longrightarrow> loadStage env filePaths st = Inr firstDoc)"
  using mergeFiles_concat [of env filePaths docs "[]"]
  by (auto simp add: loadStage_def firstPath_def length_concat)

text \<open>The two branches of C1 on two existing files.\<close>

theorem loadStage_pages_witness:
  "loadStage demoEnv [''a.pdf'', ''b.pdf''] (demoSettings\<lparr> mergePdf := True \<rparr>)
     = Inr [skuPage, plainPage, labelPage]
   \<and> loadStage demoEnv [''a.pdf'', ''b.pdf''] demoSettings = Inr [skuPage, plainPage]"
  using loadStage_pages [of "demoSettings\<lparr> mergePdf := True \<rparr>" "[''a.pdf'', ''b.pdf'']" demoEnv
          "[[skuPage, plainPage], [labelPage]]" "''a.pdf''" "[''b.pdf'']" "[skuPage, plainPage]"]
        loadStage_pages [of demoSettings "[''a.pdf'', ''b.pdf'']" demoEnv
          "[]" "''a.pdf''" "[''b.pdf'']" "[skuPage, plainPage]"]
  by (simp add: loadFile_def demoEnv_def demoReadFile_def demoSettings_def)

section \<open>Sorting and stamping: what they keep\<close>

lemma set_insertBy: "set (insertBy cmp v ws) = insert v (set ws)"
  by (induction ws) auto

lemma length_insertBy: "length (insertBy cmp v ws) = Suc (length ws)"
  by (induction ws) auto

lemma set_sortArray: "set (sortArray cmp vs) = set vs"
  by (induction vs) (simp_all add: sortArray_def set_insertBy)

lemma length_sortArray: "length (sortArray cmp vs) = length vs"
  by (induction vs) (simp_all add: sortArray_def length_insertBy)

lemma collectPageData_map:
  "collectPageData extract pageCount
     = map (\<lambda>i. \<lparr> index = i, sku = skuOrFallback (extract (i + 1)) i \<rparr>) [0..<pageCount]"
  by (simp add: collectPageData_def fold_snoc_map)

lemma copySortedStep_snoc:
  "copySortedStep pdfDoc d sortedPdf = sortedPdf @ [pdfDoc ! index d]"
  by (simp add: copySortedStep_def copyPages_def addPage_def)

lemma fold_copySortedStep:
  "fold (copySortedStep pdfDoc) ds [] = map (\<lambda>d. pdfDoc ! index d) ds"
  using fold_snoc_map [of "\<lambda>d. pdfDoc ! index d" ds "[]"]
  by (simp add: copySortedStep_snoc [abs_def])

lemma index_sortedPageData:
  "d \<in> set (sortedPageData env bytes pageCount) \<Longrightarrow> index d < pageCount"
  by (auto simp add: sortedPageData_def set_sortArray collectPageData_map)

lemma sortStage_pages:
  assumes "sortStage env st pdfDoc = Inr sortedPdf"
  shows "set sortedPdf \<subseteq> set pdfDoc \<and> length sortedPdf = length pdfDoc"
proof (cases "sortSku st")
  case False
  with assms show ?thesis by (simp add: sortStage_def)
next
  case True
  with assms obtain bytes where
    s: "sortedPdf = map (\<lambda>d. pdfDoc ! index d) (sortedPageData env bytes (length pdfDoc))"
    by (auto simp add: sortStage_def fold_copySortedStep split: sum.splits)
  have "length sortedPdf = length pdfDoc"
    by (simp add: s sortedPageData_def length_sortArray collectPageData_map)
  moreover have "set sortedPdf \<subseteq> set pdfDoc"
    using index_sortedPageData [of _ env bytes "length pdfDoc"] by (auto simp add: s)
  ultimately show ?thesis by simp
qed

lemma CropBox_drawText: "CropBox (drawText d p) = CropBox p"
  by (simp add: drawText_def)

lemma addDateTime_CropBox:
  "addDateTime env pdfDoc = Inr stamped \<Longrightarrow> map CropBox stamped = map CropBox pdfDoc"
  by (induction pdfDoc arbitrary: stamped)
     (auto simp add: CropBox_drawText split: prod.splits sum.splits)

lemma stampCustomText_CropBox:
  "stampCustomText env t pdfDoc = Inr stamped \<Longrightarrow> map CropBox stamped = map CropBox pdfDoc"
  by (induction pdfDoc arbitrary: stamped)
     (auto simp add: CropBox_drawText split: prod.splits sum.splits)

lemma addCustomText_CropBox:
  "addCustomText env pdfDoc t = Inr stamped \<Longrightarrow> map CropBox stamped = map CropBox pdfDoc"
  by (auto simp add: addCustomText_def split: if_splits dest: stampCustomText_CropBox)

lemma annotateStage_CropBox:
  assumes "annotateStage env st pdfDoc = Inr stamped"
  shows "map CropBox stamped = map CropBox pdfDoc"
proof -
  from assms obtain dated where
    d: "(if settings.addDateTime st then addDateTime env pdfDoc else Inr pdfDoc) = Inr dated"
    and c: "(if addText st \<and> customText st \<noteq> []
             then addCustomText env dated (customText st) else Inr dated) = Inr stamped"
    by (auto simp add: annotateStage_def split: sum.splits)
  from d have "map CropBox dated = map CropBox pdfDoc"
    by (auto split: if_splits dest: addDateTime_CropBox)
  moreover from c have "map CropBox stamped = map CropBox dated"
    by (auto split: if_splits dest: addCustomText_CropBox)
  ultimately show ?thesis by simp
qed

section \<open>Flipkart mode and the margin setting\<close>

lemma cropStage_flipkart_margin:
  "cropStage (st\<lparr> platform := ''flipkart'', margin := m \<rparr>) pdfDoc
     = map (setCropBox 165 460 265 360) pdfDoc"
  by (simp add: cropStage_def getPlatformPreset_flipkart flipkartPreset_def cropFlipkart_map)

lemma loadStage_platform_margin:
  "loadStage env filePaths (st\<lparr> platform := pl, margin := m \<rparr>) = loadStage env filePaths st"
  by (simp add: loadStage_def)

lemma sortStage_platform_margin:
  "sortStage env (st\<lparr> platform := pl, margin := m \<rparr>) pdfDoc = sortStage env st pdfDoc"
  by (simp add: sortStage_def cong: sum.case_cong)

lemma annotateStage_platform_margin:
  "annotateStage env (st\<lparr> platform := pl, margin := m \<rparr>) pdfDoc = annotateStage env st pdfDoc"
  by (simp add: annotateStage_def cong: sum.case_cong if_cong)

lemma processDocument_flipkart:
  "processDocument env filePaths (st\<lparr> platform := ''flipkart'', margin := m \<rparr>)
     = (case loadStage env filePaths st of
          Inl e \<Rightarrow> Inl e
        | Inr loaded \<Rightarrow>
            (case sortStage env st (map (setCropBox 165 460 265 360) loaded) of
               Inl e \<Rightarrow> Inl e
             | Inr sortedPdf \<Rightarrow> annotateStage env st sortedPdf))"
  by (simp add: processDocument_def loadStage_platform_margin sortStage_platform_margin
        annotateStage_platform_margin cropStage_flipkart_margin cong: sum.case_cong)

lemma processDocument_flipkart_CropBox:
  assumes "processDocument env filePaths (st\<lparr> platform := ''flipkart'', margin := m \<rparr>)
             = Inr finalDoc"
  shows "\<forall>p \<in> set finalDoc. CropBox p = Some (Rectangle 165 460 265 360)"
proof -
  from assms obtain loaded sortedPdf where
    srt: "sortStage env st (map (setCropBox 165 460 265 360) loaded) = Inr sortedPdf"
    and ann: "annotateStage env st sortedPdf = Inr finalDoc"
    by (auto simp add: processDocument_flipkart split: sum.splits)
  have "\<forall>p \<in> set sortedPdf. CropBox p = Some (Rectangle 165 460 265 360)"
    using sortStage_pages [OF srt] by (auto simp add: setCropBox_def)
  then have "\<forall>b \<in> set (map CropBox sortedPdf). b = Some (Rectangle 165 460 265 360)"
    by simp
  then have "\<forall>b \<in> set (map CropBox finalDoc). b = Some (Rectangle 165 460 265 360)"
    by (simp only: annotateStage_CropBox [OF ann])
  then show ?thesis by simp
qed

text \<open>
  Claim C2. With \<^verbatim>\<open>platform\<close> equal to \<^verbatim>\<open>flipkart\<close> and any value \<open>m\<close> of
  \<^verbatim>\<open>margin\<close>: the crop step gives every page the rectangle \<open>(165, 460, 265, 360)\<close>; the
  result of \<^verbatim>\<open>processPDF\<close>, and the document it serialises, are the same for any other
  margin value \<open>m'\<close>; and every page of that document has that rectangle as its crop box.
\<close>

theorem flipkart_margin_ignored:
  "cropStage (st\<lparr> platform := ''flipkart'', margin := m \<rparr>) pdfDoc
     = map (setCropBox 165 460 265 360) pdfDoc
   \<and> processPDF env filePaths (st\<lparr> platform := ''flipkart'', margin := m \<rparr>)
       = processPDF env filePaths (st\<lparr> platform := ''flipkart'', margin := m' \<rparr>)
   \<and> processDocument env filePaths (st\<lparr> platform := ''flipkart'', margin := m \<rparr>)
       = processDocument env filePaths (st\<lparr> platform := ''flipkart'', margin := m' \<rparr>)
   \<and> (processDocument env filePaths (st\<lparr> platform := ''flipkart'', margin := m \<rparr>)
         = Inr finalDoc
       \<longrightarrow> (\<forall>p \<in> set finalDoc. CropBox p = Some (Rectangle 165 460 265 360)))"
proof (intro conjI impI)
  show "cropStage (st\<lparr> platform := ''flipkart'', margin := m \<rparr>) pdfDoc
          = map (setCropBox 165 460 265 360) pdfDoc"
    by (rule cropStage_flipkart_margin)
  show "processDocument env filePaths (st\<lparr> platform := ''flipkart'', margin := m \<rparr>)
          = processDocument env filePaths (st\<lparr> platform := ''flipkart'', margin := m' \<rparr>)"
    by (simp only: processDocument_flipkart)
  then show "processPDF env filePaths (st\<lparr> platform := ''flipkart'', margin := m \<rparr>)
          = processPDF env filePaths (st\<lparr> platform := ''flipkart'', margin := m' \<rparr>)"
    by (simp add: processPDF_def tryBody_def)
next
  assume "processDocument env filePaths (st\<lparr> platform := ''flipkart'', margin := m \<rparr>)
            = Inr finalDoc"
  then show "\<forall>p \<in> set finalDoc. CropBox p = Some (Rectangle 165 460 265 360)"
    by (rule processDocument_flipkart_CropBox)
qed

text \<open>A flipkart run with sorting on and a numeric margin.\<close>

theorem flipkart_margin_ignored_witness:
  "processDocument demoEnv [''a.pdf''] (demoSettings\<lparr> sortSku := True, margin := JSNumber 7 \<rparr>)
     = Inr [setCropBox 165 460 265 360 plainPage, setCropBox 165 460 265 360 skuPage]
   \<and> CropBox (setCropBox 165 460 265 360 plainPage) = Some (Rectangle 165 460 265 360)
   \<and> CropBox (setCropBox 165 460 265 360 skuPage) = Some (Rectangle 165 460 265 360)"
proof -
  have run: "processDocument demoEnv [''a.pdf'']
               (demoSettings\<lparr> sortSku := True, platform := ''flipkart'', margin := JSNumber 7 \<rparr>)
             = Inr [setCropBox 165 460 265 360 plainPage, setCropBox 165 460 265 360 skuPage]"
    by code_simp
  have same: "demoSettings\<lparr> sortSku := True, margin := JSNumber 7 \<rparr>
        = demoSettings\<lparr> sortSku := True, platform := ''flipkart'', margin := JSNumber 7 \<rparr>"
    by (simp add: demoSettings_def)
  show ?thesis
    using run flipkart_margin_ignored
            [where st = "demoSettings\<lparr> sortSku := True \<rparr>" and m = "JSNumber 7"
               and env = demoEnv and filePaths = "[''a.pdf'']" and finalDoc =
               "[setCropBox 165 460 265 360 plainPage, setCropBox 165 460 265 360 skuPage]"]
    by (simp add: same)
qed

section \<open>The SKU sort on a page without SKU\<close>

lemma sortArray_pair:
  "sortArray cmp [a, b] = (if cmp a b \<le> 0 then [a, b] else [b, a])"
  by (simp add: sortArray_def)

text \<open>
  Whatever the collation: when it ranks \<^verbatim>\<open>ZZZ_Z\<close> after \<^verbatim>\<open>ZZZ_NO_SKU_0001\<close>, the page
  with the fallback key is sorted before the page whose SKU is \<^verbatim>\<open>zzz_z\<close>.
\<close>

lemma sortArray_fallback_first:
  "0 < localeCompare env (codeUnits ''ZZZ_Z'') (codeUnits ''ZZZ_NO_SKU_0001'') \<Longrightarrow>
   sortArray (compareSku env)
     [\<lparr> index = 0, sku = skuOrFallback (Some (codeUnits ''zzz_z'')) 0 \<rparr>,
      \<lparr> index = 1, sku = skuOrFallback None 1 \<rparr>]
   = [\<lparr> index = 1, sku = codeUnits ''zzz_no_sku_0001'' \<rparr>,
      \<lparr> index = 0, sku = codeUnits ''zzz_z'' \<rparr>]"
proof -
  assume gt: "0 < localeCompare env (codeUnits ''ZZZ_Z'') (codeUnits ''ZZZ_NO_SKU_0001'')"
  have k0: "skuOrFallback (Some (codeUnits ''zzz_z'')) 0 = codeUnits ''zzz_z''"
    by code_simp
  have k1: "skuOrFallback None 1 = codeUnits ''zzz_no_sku_0001''"
    by code_simp
  have u0: "toUpperCase (codeUnits ''zzz_z'') = codeUnits ''ZZZ_Z''"
    by code_simp
  have u1: "toUpperCase (codeUnits ''zzz_no_sku_0001'') = codeUnits ''ZZZ_NO_SKU_0001''"
    by code_simp
  show ?thesis
    unfolding k0 k1 using gt by (simp add: sortArray_pair compareSku_def u0 u1)
qed

text \<open>
  The fallback key of page index 10000 has five digits and is ranked before the key of
  page index 9999.
\<close>

lemma natToString_10000: "natToString 10000 = ''10000''"
  by (simp add: natToString.simps [of 10000] natToString.simps [of 1000]
        natToString.simps [of 100] natToString.simps [of 10]
        natToString.simps [of "Suc 0"] digitChar_def)

lemma natToString_9999: "natToString 9999 = ''9999''"
  by (simp add: natToString.simps [of 9999] natToString.simps [of 999]
        natToString.simps [of 99] natToString.simps [of 9] digitChar_def)

lemma fallback_key_five_digits:
  "skuOrFallback None 10000 = codeUnits ''zzz_no_sku_10000''
   \<and> skuOrFallback None 9999 = codeUnits ''zzz_no_sku_9999''
   \<and> codeUnitCompare (toUpperCase (codeUnits ''zzz_no_sku_10000''))
         (toUpperCase (codeUnits ''zzz_no_sku_9999'')) = - 1"
proof (intro conjI)
  show "skuOrFallback None 10000 = codeUnits ''zzz_no_sku_10000''"
    by (simp add: skuOrFallback_def padStart_def natToString_10000)
  show "skuOrFallback None 9999 = codeUnits ''zzz_no_sku_9999''"
    by (simp add: skuOrFallback_def padStart_def natToString_9999)
  show "codeUnitCompare (toUpperCase (codeUnits ''zzz_no_sku_10000''))
          (toUpperCase (codeUnits ''zzz_no_sku_9999'')) = - 1"
    by code_simp
qed

text \<open>
  Claim C4 says that a page without an extracted SKU is placed after every page with
  one, whatever the SKU. On a two-page document whose first page carries the SKU
  \<^verbatim>\<open>zzz_z\<close> and whose second page has none, the sort step puts the page without SKU
  first: its key \<^verbatim>\<open>zzz_no_sku_0001\<close> is compared like any other key and ranks before
  \<^verbatim>\<open>zzz_z\<close>.
\<close>

theorem sortStage_fallback_before_sku:
  "extractSKUFromPage demoEnv [skuPage, plainPage] 1 = Some (codeUnits ''zzz_z'')
   \<and> extractSKUFromPage demoEnv [skuPage, plainPage] 2 = None
   \<and> sortedPageData demoEnv [skuPage, plainPage] 2
       = [\<lparr> index = 1, sku = codeUnits ''zzz_no_sku_0001'' \<rparr>,
          \<lparr> index = 0, sku = codeUnits ''zzz_z'' \<rparr>]
   \<and> sortStage demoEnv (demoSettings\<lparr> sortSku := True \<rparr>) [skuPage, plainPage]
       = Inr [plainPage, skuPage]"
  by code_simp

section \<open>The SKU extractor: proofs\<close>

lemma matchItems_mono:
  "matchItems items s cap = Some r \<Longrightarrow> length cap \<le> length r"
  by (induction items s cap rule: matchItems.induct)
     (auto simp add: capture_def split: if_splits option.splits)

lemma matchItems_captures:
  "mustCapture items \<Longrightarrow> matchItems items s cap = Some r \<Longrightarrow> length cap < length r"
proof (induction items s cap rule: matchItems.induct)
  case (3 g a rest c cs cap)
  then show ?case
    by (cases g) (auto simp add: capture_def split: if_splits dest: matchItems_mono)
next
  case (5 g a rest c cs cap)
  then show ?case
    by (cases g) (auto simp add: capture_def split: if_splits dest: matchItems_mono)
next
  case (7 g a rest c cs cap)
  then show ?case
    by (cases g) (auto simp add: capture_def split: if_splits option.splits)
next
  case (9 g a rest c cs cap)
  then show ?case
    by (cases g) (auto simp add: capture_def split: if_splits dest: matchItems_mono)
next
  case (11 g a rest c cs cap)
  then show ?case
    by (cases g) (auto simp add: capture_def split: if_splits option.splits)
qed simp_all

lemma regexMatch_nonempty:
  "mustCapture items \<Longrightarrow> regexMatch items s = Some r \<Longrightarrow> r \<noteq> []"
proof (induction s)
  case Nil
  then show ?case using matchItems_captures [of items "[]" "[]" r] by auto
next
  case (Cons c cs)
  then show ?case
    using matchItems_captures [of items "c # cs" "[]" r]
    by (auto split: option.splits)
qed

lemma mustCapture_pattern1: "mustCapture pattern1"
  by (simp add: pattern1_def)

lemma mustCapture_pattern2: "mustCapture pattern2"
  by (simp add: pattern2_def literal_def)

lemma mustCapture_pattern3: "mustCapture pattern3"
  by (simp add: pattern3_def literal_def)

text \<open>An extracted SKU consists of characters of the class \<^verbatim>\<open>[a-zA-Z0-9_\s-]\<close>.\<close>

lemma matchItems_chars:
  "capturesOnly a items \<Longrightarrow> list_all (atomMatches a) cap \<Longrightarrow>
   matchItems items s cap = Some r \<Longrightarrow> list_all (atomMatches a) r"
proof (induction items s cap rule: matchItems.induct)
  case (3 g b rest c cs cap)
  then show ?case by (cases g) (auto simp add: capture_def split: if_splits)
next
  case (5 g b rest c cs cap)
  then show ?case by (cases g) (auto simp add: capture_def split: if_splits)
next
  case (7 g b rest c cs cap)
  then show ?case by (cases g) (auto simp add: capture_def split: if_splits option.splits)
next
  case (9 g b rest c cs cap)
  then show ?case by (cases g) (auto simp add: capture_def split: if_splits)
next
  case (11 g b rest c cs cap)
  then show ?case by (cases g) (auto simp add: capture_def split: if_splits option.splits)
qed simp_all

lemma regexMatch_chars:
  "capturesOnly a items \<Longrightarrow> regexMatch items s = Some r \<Longrightarrow> list_all (atomMatches a) r"
proof (induction s)
  case Nil
  then show ?case using matchItems_chars [of a items "[]" "[]" r] by simp
next
  case (Cons c cs)
  then show ?case
    using matchItems_chars [of a items "[]" "c # cs" r]
    by (auto split: option.splits)
qed

lemma set_trim: "set (trim s) \<subseteq> set s"
proof
  fix c assume "c \<in> set (trim s)"
  then have "c \<in> set (dropWhile isWhiteSpace (rev (dropWhile isWhiteSpace s)))"
    by (simp add: trim_def)
  then have "c \<in> set (rev (dropWhile isWhiteSpace s))"
    by (rule set_dropWhileD)
  then have "c \<in> set (dropWhile isWhiteSpace s)"
    by simp
  then show "c \<in> set s"
    by (rule set_dropWhileD)
qed

lemma list_all_trim: "list_all P s \<Longrightarrow> list_all P (trim s)"
  using set_trim [of s] by (auto simp add: list_all_iff)

lemma capturesOnly_patterns:
  "capturesOnly SkuChar pattern1 \<and> capturesOnly SkuChar pattern2
   \<and> capturesOnly SkuChar pattern3"
  by (simp add: pattern1_def pattern2_def pattern3_def literal_def)

lemma extractSKUFromText_chars:
  "extractSKUFromText pageText = Some s \<Longrightarrow> list_all (atomMatches SkuChar) s"
  using regexMatch_chars [of SkuChar pattern1 pageText]
        regexMatch_chars [of SkuChar pattern2 pageText]
        regexMatch_chars [of SkuChar pattern3 pageText]
        capturesOnly_patterns
  by (auto simp add: extractSKUFromText_def Let_def list_all_trim
           split: option.splits if_splits)

lemma isWhiteSpace_iff: "isWhiteSpace c \<longleftrightarrow> c \<in> set whiteSpaceCodeUnits"
  by (auto simp add: isWhiteSpace_def whiteSpaceCodeUnits_def) arith+

lemma dropWhile_all: "list_all P xs \<Longrightarrow> dropWhile P (xs @ ys) = dropWhile P ys"
  by (induction xs) simp_all

lemma trim_spec:
  assumes pre: "list_all isWhiteSpace pre" and post: "list_all isWhiteSpace post"
    and core: "s = [] \<or> (\<not> isWhiteSpace (hd s) \<and> \<not> isWhiteSpace (last s))"
  shows "trim (pre @ s @ post) = s"
proof (cases "s = []")
  case True
  have e: "dropWhile isWhiteSpace (pre @ post) = []"
    using pre post by (auto simp add: dropWhile_eq_Nil_conv list_all_iff)
  show ?thesis
    unfolding trim_def True by (simp only: append_Nil e rev.simps dropWhile.simps)
next
  case False
  with core have h: "\<not> isWhiteSpace (hd s)" and l: "\<not> isWhiteSpace (last s)" by auto
  from False obtain x xs where s: "s = x # xs" by (cases s) auto
  have front: "dropWhile isWhiteSpace (pre @ s @ post) = s @ post"
    using pre h by (simp add: dropWhile_all s)
  have "rev s \<noteq> []" using False by simp
  then obtain y ys where r: "rev s = y # ys" by (cases "rev s") auto
  have "y = last s" using r False by (metis hd_rev list.sel(1))
  with l have ny: "\<not> isWhiteSpace y" by simp
  have rp: "list_all isWhiteSpace (rev post)"
    using post by (simp add: list_all_iff)
  have "dropWhile isWhiteSpace (rev (s @ post)) = dropWhile isWhiteSpace (rev post @ rev s)"
    by simp
  also have "\<dots> = dropWhile isWhiteSpace (rev s)"
    by (rule dropWhile_all [OF rp])
  also have "\<dots> = y # ys"
    using ny by (simp add: r)
  finally have tail: "dropWhile isWhiteSpace (rev (s @ post)) = y # ys" .
  have "trim (pre @ s @ post) = rev (y # ys)"
    by (simp only: trim_def front tail)
  also have "\<dots> = s"
    using r by (metis rev_rev_ident)
  finally show ?thesis .
qed

lemma trim_ends:
  "trim g = [] \<or> (\<not> isWhiteSpace (hd (trim g)) \<and> \<not> isWhiteSpace (last (trim g)))"
proof (cases "trim g = []")
  case True
  then show ?thesis by simp
next
  case False
  define u where "u = dropWhile isWhiteSpace g"
  define v where "v = dropWhile isWhiteSpace (rev u)"
  have t: "trim g = rev v" by (simp add: trim_def u_def v_def)
  with False have v: "v \<noteq> []" by simp
  then have hv: "\<not> isWhiteSpace (hd v)"
    unfolding v_def by (rule hd_dropWhile)
  have ru: "rev u = takeWhile isWhiteSpace (rev u) @ v"
    by (simp add: v_def)
  from v ru have u: "u \<noteq> []" by auto
  then have hu: "\<not> isWhiteSpace (hd u)"
    unfolding u_def by (rule hd_dropWhile)
  have "last v = last (rev u)"
    using v ru by (metis last_appendR)
  also have "\<dots> = hd u" using u by (simp add: last_rev)
  finally have lv: "\<not> isWhiteSpace (last v)" using hu by simp
  have "hd (trim g) = last v" using v by (simp add: t hd_rev)
  moreover have "last (trim g) = hd v" using v by (simp add: t last_rev)
  ultimately show ?thesis using hv lv by simp
qed

text \<open>
  Claim C5. The extractor returns the trimmed group of pattern 1 when pattern 1 matches,
  else that of pattern 2 when it matches, else that of pattern 3 when it matches, and
  \<^verbatim>\<open>null\<close> when none does. Trimming removes exactly the surrounding white space: a
  string made of white space, then a core that neither begins nor ends with white space,
  then white space, is trimmed to the core, so what the extractor returns never begins
  or ends with white space. On the text \<^verbatim>\<open>1 sp_megha red chiku | MFTEXO\<close> it returns
  \<^verbatim>\<open>sp_megha red chiku\<close>. Further texts fix the other ingredients: a group that is a
  single space or a single EM SPACE is returned as the empty string; lower-case
  \<^verbatim>\<open>qty\<close> and a lower-case letter after the bar match under the \<^verbatim>\<open>i\<close> flag; pattern 1
  wins over pattern 2 even where the match of pattern 2 starts earlier in the text;
  pattern 3 crosses a line break; a text without a bar yields \<^verbatim>\<open>null\<close>.
\<close>

theorem extractSKUFromText_priority:
  "extractSKUFromText pageText =
     (case regexMatch pattern1 pageText of
        Some g1 \<Rightarrow> Some (trim g1)
      | None \<Rightarrow>
          (case regexMatch pattern2 pageText of
             Some g2 \<Rightarrow> Some (trim g2)
           | None \<Rightarrow>
               (case regexMatch pattern3 pageText of
                  Some g3 \<Rightarrow> Some (trim g3)
                | None \<Rightarrow> None)))
   \<and> (list_all (\<lambda>c. c \<in> set whiteSpaceCodeUnits) (pre @ post)
        \<and> (core = [] \<or> (hd core \<notin> set whiteSpaceCodeUnits
                          \<and> last core \<notin> set whiteSpaceCodeUnits))
      \<longrightarrow> trim (pre @ core @ post) = core)
   \<and> (extractSKUFromText pageText = Some result
      \<longrightarrow> result = [] \<or> (hd result \<notin> set whiteSpaceCodeUnits
                          \<and> last result \<notin> set whiteSpaceCodeUnits))
   \<and> extractSKUFromText (codeUnits ''1 sp_megha red chiku | MFTEXO'')
       = Some (codeUnits ''sp_megha red chiku'')
   \<and> regexMatch pattern1 (codeUnits ''1  | A'') = Some (codeUnits '' '')
   \<and> extractSKUFromText (codeUnits ''1  | A'') = Some []
   \<and> regexMatch pattern1 [49, 12288, 8195, 124, 65] = Some [8195]
   \<and> extractSKUFromText [49, 12288, 8195, 124, 65] = Some []
   \<and> regexMatch pattern1 (codeUnits ''qty 2 Blue-Owl_9 | 123'') = None
   \<and> extractSKUFromText (codeUnits ''qty 2 Blue-Owl_9 | 123'')
       = Some (codeUnits ''Blue-Owl_9'')
   \<and> extractSKUFromText (codeUnits ''1 abc |x'') = Some (codeUnits ''abc'')
   \<and> regexMatch pattern1 (codeUnits ''QTY 7 second | 5 first | A'')
       = Some (codeUnits ''first'')
   \<and> regexMatch pattern2 (codeUnits ''QTY 7 second | 5 first | A'')
       = Some (codeUnits ''second'')
   \<and> extractSKUFromText (codeUnits ''QTY 7 second | 5 first | A'')
       = Some (codeUnits ''first'')
   \<and> regexMatch pattern3 (codeUnits ''sku id: 77'' @ [10] @ codeUnits ''qty 2 lamp |'')
       = Some (codeUnits ''lamp'')
   \<and> extractSKUFromText (codeUnits ''Tax Invoice'') = None"
proof (intro conjI impI)
  show priority: "extractSKUFromText pageText =
     (case regexMatch pattern1 pageText of
        Some g1 \<Rightarrow> Some (trim g1)
      | None \<Rightarrow>
          (case regexMatch pattern2 pageText of
             Some g2 \<Rightarrow> Some (trim g2)
           | None \<Rightarrow>
               (case regexMatch pattern3 pageText of
                  Some g3 \<Rightarrow> Some (trim g3)
                | None \<Rightarrow> None)))"
    using regexMatch_nonempty [OF mustCapture_pattern1, of pageText]
          regexMatch_nonempty [OF mustCapture_pattern2, of pageText]
          regexMatch_nonempty [OF mustCapture_pattern3, of pageText]
    by (auto simp add: extractSKUFromText_def Let_def split: option.splits)
  show "trim (pre @ core @ post) = core"
    if "list_all (\<lambda>c. c \<in> set whiteSpaceCodeUnits) (pre @ post)
        \<and> (core = [] \<or> (hd core \<notin> set whiteSpaceCodeUnits
                          \<and> last core \<notin> set whiteSpaceCodeUnits))"
    using that by (intro trim_spec) (simp_all add: isWhiteSpace_iff [abs_def])
  show "result = [] \<or> (hd result \<notin> set whiteSpaceCodeUnits
                        \<and> last result \<notin> set whiteSpaceCodeUnits)"
    if "extractSKUFromText pageText = Some result"
  proof -
    from that priority obtain g where "result = trim g"
      by (auto split: option.splits)
    then show ?thesis
      using trim_ends [of g] by (simp add: isWhiteSpace_iff)
  qed
  show "extractSKUFromText (codeUnits ''1 sp_megha red chiku | MFTEXO'')
          = Some (codeUnits ''sp_megha red chiku'')"
    by code_simp
  show "regexMatch pattern1 (codeUnits ''1  | A'') = Some (codeUnits '' '')"
    by code_simp
  show "extractSKUFromText (codeUnits ''1  | A'') = Some []"
    by code_simp
  show "regexMatch pattern1 [49, 12288, 8195, 124, 65] = Some [8195]"
    by code_simp
  show "extractSKUFromText [49, 12288, 8195, 124, 65] = Some []"
    by code_simp
  show "regexMatch pattern1 (codeUnits ''qty 2 Blue-Owl_9 | 123'') = None"
    by code_simp
  show "extractSKUFromText (codeUnits ''qty 2 Blue-Owl_9 | 123'')
          = Some (codeUnits ''Blue-Owl_9'')"
    by code_simp
  show "extractSKUFromText (codeUnits ''1 abc |x'') = Some (codeUnits ''abc'')"
    by code_simp
  show "regexMatch pattern1 (codeUnits ''QTY 7 second | 5 first | A'')
          = Some (codeUnits ''first'')"
    by code_simp
  show "regexMatch pattern2 (codeUnits ''QTY 7 second | 5 first | A'')
          = Some (codeUnits ''second'')"
    by code_simp
  show "extractSKUFromText (codeUnits ''QTY 7 second | 5 first | A'')
          = Some (codeUnits ''first'')"
    by code_simp
  show "regexMatch pattern3 (codeUnits ''sku id: 77'' @ [10] @ codeUnits ''qty 2 lamp |'')
          = Some (codeUnits ''lamp'')"
    by code_simp
  show "extractSKUFromText (codeUnits ''Tax Invoice'') = None"
    by code_simp
qed

text \<open>
  Trimming a core with white space on both sides, and the extractor on the text of the
  claim, whose result begins with \<^verbatim>\<open>s\<close> and ends with \<^verbatim>\<open>u\<close>.
\<close>

theorem extractSKUFromText_priority_witness:
  "trim ([32, 12288] @ codeUnits ''a b'' @ [9, 8195]) = codeUnits ''a b''
   \<and> extractSKUFromText (codeUnits ''1 sp_megha red chiku | MFTEXO'')
       = Some (codeUnits ''sp_megha red chiku'')
   \<and> hd (codeUnits ''sp_megha red chiku'') = 115
   \<and> last (codeUnits ''sp_megha red chiku'') = 117
   \<and> hd (codeUnits ''sp_megha red chiku'') \<notin> set whiteSpaceCodeUnits
   \<and> last (codeUnits ''sp_megha red chiku'') \<notin> set whiteSpaceCodeUnits"
proof -
  have cu: "codeUnits ''a b'' = [97, 32, 98]"
    by code_simp
  have h: "hd (codeUnits ''sp_megha red chiku'') = 115"
    by code_simp
  have l: "last (codeUnits ''sp_megha red chiku'') = 117"
    by code_simp
  have ws: "list_all (\<lambda>c. c \<in> set whiteSpaceCodeUnits) ([32, 12288] @ [9, 8195])"
    by (simp add: whiteSpaceCodeUnits_def)
  have ends: "hd (codeUnits ''a b'') \<notin> set whiteSpaceCodeUnits
              \<and> last (codeUnits ''a b'') \<notin> set whiteSpaceCodeUnits"
    by (simp add: cu whiteSpaceCodeUnits_def)
  note inst = extractSKUFromText_priority
        [where pageText = "codeUnits ''1 sp_megha red chiku | MFTEXO''"
           and pre = "[32, 12288]" and post = "[9, 8195]" and core = "codeUnits ''a b''"
           and result = "codeUnits ''sp_megha red chiku''"]
  have t1: "trim ([32, 12288] @ codeUnits ''a b'' @ [9, 8195]) = codeUnits ''a b''"
    using inst ws ends by blast
  have t2: "extractSKUFromText (codeUnits ''1 sp_megha red chiku | MFTEXO'')
              = Some (codeUnits ''sp_megha red chiku'')"
    using inst by blast
  have ne: "codeUnits ''sp_megha red chiku'' \<noteq> []"
    by (simp add: codeUnits_def)
  have t3: "hd (codeUnits ''sp_megha red chiku'') \<notin> set whiteSpaceCodeUnits
            \<and> last (codeUnits ''sp_megha red chiku'') \<notin> set whiteSpaceCodeUnits"
    using inst t2 ne by blast
  show ?thesis
    using t1 t2 t3 h l by simp
qed

section \<open>Failure of a stage\<close>



end
